theory Spec2Isabelle
  imports Main "HOL-Library.Sublist"
begin

section \<open>Decoded JSON values and the Python operations applied to them\<close>

text \<open>
  \<^verbatim>\<open>check_ranger_policy.py\<close> receives the decoded body of a Ranger Admin REST answer
  and works on it with subscripts, truth tests, \<^verbatim>\<open>str\<close> and \<^verbatim>\<open>format\<close>.
  A decoded value is \<^verbatim>\<open>None\<close>, a bool, an int, a string, a list or a dict; a dict is
  an association list in insertion order whose keys are distinct (what \<^verbatim>\<open>json.loads\<close>
  builds). \<^verbatim>\<open>JNull\<close> is Python's \<^verbatim>\<open>None\<close>: the decoder maps \<^verbatim>\<open>null\<close> to that very
  object. Floats are left out. Strings are byte lists, so lengths agree with Python's
  for ASCII text. The builtins follow Python 3.
\<close>

datatype json =
    JNull
  | JBool bool
  | JInt int
  | JStr string
  | JList "json list"
  | JObj "(string \<times> json) list"

datatype pyerr =
    CriticalError string
  | UnknownError string
  | KeyError string
  | TypeError
  | AssertionError

datatype severity = OK | WARNING | CRITICAL | UNKNOWN

text \<open>Truth value of an object, as \<^verbatim>\<open>if x:\<close> and \<^verbatim>\<open>not x\<close> take it.\<close>

fun truthy :: "json \<Rightarrow> bool" where
  "truthy JNull = False"
| "truthy (JBool b) = b"
| "truthy (JInt i) = (i \<noteq> 0)"
| "truthy (JStr s) = (s \<noteq> [])"
| "truthy (JList xs) = (xs \<noteq> [])"
| "truthy (JObj kvs) = (kvs \<noteq> [])"

text \<open>
  An option of the command line is \<^verbatim>\<open>None\<close> when it was not given and a string
  otherwise; the empty string is false as well.
\<close>

fun opt_truthy :: "string option \<Rightarrow> bool" where
  "opt_truthy None = False"
| "opt_truthy (Some s) = (s \<noteq> [])"

text \<open>
  \<^verbatim>\<open>x[key]\<close> with a string key: a dict looks the key up and raises \<^verbatim>\<open>KeyError\<close> when
  it is missing; every other value raises \<^verbatim>\<open>TypeError\<close>.
\<close>

fun getitem :: "json \<Rightarrow> string \<Rightarrow> pyerr + json" where
  "getitem (JObj kvs) k = (case map_of kvs k of None \<Rightarrow> Inl (KeyError k) | Some v \<Rightarrow> Inr v)"
| "getitem JNull k = Inl TypeError"
| "getitem (JBool b) k = Inl TypeError"
| "getitem (JInt i) k = Inl TypeError"
| "getitem (JStr s) k = Inl TypeError"
| "getitem (JList xs) k = Inl TypeError"

subsection \<open>\<^verbatim>\<open>str\<close> and \<^verbatim>\<open>repr\<close>\<close>

definition digit_char :: "nat \<Rightarrow> char" where
  "digit_char d = ''0123456789abcdef'' ! d"

fun dec_nat :: "nat \<Rightarrow> string" where
  "dec_nat n = (if n < 10 then [digit_char n] else dec_nat (n div 10) @ [digit_char (n mod 10)])"

declare dec_nat.simps [simp del]

definition str_int :: "int \<Rightarrow> string" where
  "str_int i = (if i < 0 then CHR 0x2D # dec_nat (nat (- i)) else dec_nat (nat i))"

definition str_bool :: "bool \<Rightarrow> string" where
  "str_bool b = (if b then ''True'' else ''False'')"

text \<open>
  \<^verbatim>\<open>repr\<close> of a string: single quotes unless the text has a single quote and no
  double quote; the quote and the backslash are escaped, tab, newline and carriage
  return are written with their letters and the other control characters in hex.
\<close>

definition repr_char :: "char \<Rightarrow> char \<Rightarrow> string" where
  "repr_char q c =
     (if c = q \<or> c = CHR 0x5C then [CHR 0x5C, c]
      else if c = CHR 0x09 then [CHR 0x5C, CHR ''t'']
      else if c = CHR 0x0A then [CHR 0x5C, CHR ''n'']
      else if c = CHR 0x0D then [CHR 0x5C, CHR ''r'']
      else if (of_char c :: nat) < 32 \<or> (of_char c :: nat) = 127
        then [CHR 0x5C, CHR ''x'', digit_char (of_char c div 16), digit_char (of_char c mod 16)]
      else [c])"

definition repr_str :: "string \<Rightarrow> string" where
  "repr_str s =
     (let q = (if CHR 0x27 \<in> set s \<and> CHR 0x22 \<notin> set s then CHR 0x22 else CHR 0x27)
      in q # concat (map (repr_char q) s) @ [q])"

fun join :: "string \<Rightarrow> string list \<Rightarrow> string" where
  "join sep [] = []"
| "join sep [x] = x"
| "join sep (x # y # ys) = x @ sep @ join sep (y # ys)"

fun repr :: "json \<Rightarrow> string" where
  "repr JNull = ''None''"
| "repr (JBool b) = str_bool b"
| "repr (JInt i) = str_int i"
| "repr (JStr s) = repr_str s"
| "repr (JList xs) = ''['' @ join '', '' (map repr xs) @ '']''"
| "repr (JObj kvs) =
     ''{'' @ join '', '' (map (\<lambda>kv. repr_str (fst kv) @ '': '' @ repr (snd kv)) kvs) @ ''}''"

text \<open>\<^verbatim>\<open>str(x)\<close>, which is also what \<^verbatim>\<open>'{0}'.format(x)\<close> inserts.\<close>

fun str :: "json \<Rightarrow> string" where
  "str (JStr s) = s"
| "str v = repr v"

fun str_opt :: "string option \<Rightarrow> string" where
  "str_opt None = ''None''"
| "str_opt (Some s) = s"

section \<open>The plugin object\<close>

text \<open>
  The attributes of \<^verbatim>\<open>CheckRangerPolicy\<close> that \<^verbatim>\<open>parse_json\<close> and \<^verbatim>\<open>check_policy\<close>
  read or write. \<^verbatim>\<open>msg\<close> and the options are set in \<^verbatim>\<open>__init__\<close> and
  \<^verbatim>\<open>process_options\<close>; \<^verbatim>\<open>status\<close>, \<^verbatim>\<open>verbose\<close>, \<^verbatim>\<open>host\<close> and \<^verbatim>\<open>port\<close> are inherited
  from \<^verbatim>\<open>RestNagiosPlugin\<close> (\<^verbatim>\<open>port\<close> is kept as the text that \<^verbatim>\<open>format\<close> inserts).
\<close>

record plugin =
  msg :: string
  status :: severity
  policy_name :: "string option"
  policy_id :: "string option"
  no_audit :: bool
  recursive :: bool
  list_policies :: bool
  verbose :: int
  host :: string
  port :: string

text \<open>
  Modelled from the spec: the base class \<^verbatim>\<open>harisekhon.RestNagiosPlugin\<close> is not in the
  repository's sources, so the value of \<^verbatim>\<open>status\<close> before the check and the effect of
  \<^verbatim>\<open>self.critical()\<close> follow the specification (4.3: severity starts at OK, step 7,
  and a failed condition raises it to CRITICAL). The other fields are those of
  \<^verbatim>\<open>__init__\<close>; \<^verbatim>\<open>process_options\<close> overwrites the five options.
\<close>

definition init :: "string \<Rightarrow> string \<Rightarrow> plugin" where
  "init h p =
     \<lparr> msg = ''Ranger Message Not Defined'', status = OK,
       policy_name = None, policy_id = None, no_audit = False, recursive = False,
       list_policies = False, verbose = 0, host = h, port = p \<rparr>"

definition critical :: "plugin \<Rightarrow> plugin" where
  "critical self = self\<lparr>status := CRITICAL\<rparr>"

text \<open>
  Modelled from the spec: \<^verbatim>\<open>NagiosPlugin.main\<close>, which turns an exception into the exit
  status, is not in the repository's sources. By 6 and 7 of the specification a
  \<^verbatim>\<open>CriticalError\<close> ends the run as CRITICAL and every other failure as UNKNOWN.
\<close>

fun surfaced :: "pyerr \<Rightarrow> severity" where
  "surfaced (CriticalError m) = CRITICAL"
| "surfaced (UnknownError m) = UNKNOWN"
| "surfaced (KeyError k) = UNKNOWN"
| "surfaced TypeError = UNKNOWN"
| "surfaced AssertionError = UNKNOWN"

section \<open>\<^verbatim>\<open>check_policy\<close>\<close>

text \<open>
  A statement that may raise, followed by the rest of the body: an exception ends the
  function at once, a value is handed on.
\<close>

fun attempt :: "pyerr + 'a \<Rightarrow> ('a \<Rightarrow> pyerr + 'b) \<Rightarrow> pyerr + 'b" where
  "attempt (Inl e) f = Inl e"
| "attempt (Inr v) f = f v"

definition quoted :: "string \<Rightarrow> string" where
  "quoted s = CHR 0x27 # s @ [CHR 0x27]"

text \<open>\<^verbatim>\<open>self.policy_name is not None and self.policy_name != policy_name\<close>\<close>

fun name_differs :: "string option \<Rightarrow> json \<Rightarrow> bool" where
  "name_differs None v = False"
| "name_differs (Some n) v = (JStr n \<noteq> v)"

text \<open>Lines 159 to 161: the name given with \<^verbatim>\<open>--name\<close> against the policy's name.\<close>

definition check_name :: "json \<Rightarrow> plugin \<Rightarrow> plugin" where
  "check_name pname self =
     (if name_differs (policy_name self) pname
      then (critical self)\<lparr>msg := msg (critical self) @ '' (expected '' @
                                     quoted (str_opt (policy_name self)) @ '')''\<rparr>
      else self)"

text \<open>
  One condition of lines 165 to 176: the clause is appended, and when the condition
  failed \<^verbatim>\<open>self.critical()\<close> is called and the clause is marked.
\<close>

definition report :: "string \<Rightarrow> json \<Rightarrow> bool \<Rightarrow> plugin \<Rightarrow> plugin" where
  "report label v failed self =
     (let self = self\<lparr>msg := msg self @ '', '' @ label @ '' = '' @ str v\<rparr>
      in if failed
         then (critical self)\<lparr>msg := msg (critical self) @ '' (expected True)''\<rparr>
         else self)"

text \<open>
  Lines 158 to 176 on the five fields of the policy: the heading of the message, the
  check of the name and the three conditions, in the order of the source.
\<close>

definition judge :: "plugin \<Rightarrow> json \<Rightarrow> json \<Rightarrow> json \<Rightarrow> json \<Rightarrow> json \<Rightarrow> plugin" where
  "judge self pid pname enabled auditing recursive' =
     report ''recursive'' recursive' (recursive self \<and> \<not> truthy recursive')
    (report ''auditing'' auditing (\<not> truthy auditing \<and> \<not> no_audit self)
    (report ''enabled'' enabled (\<not> truthy enabled)
    (check_name pname
    (self\<lparr>msg := ''Ranger policy id '' @ quoted (str pid) @
                   '' name '' @ quoted (str pname)\<rparr>))))"

text \<open>
  \<^verbatim>\<open>check_policy\<close>: the subscripts and the assertion raise in the order of the source
  (\<^verbatim>\<open>policyName\<close>, \<^verbatim>\<open>id\<close>, the assertion of line 157, \<^verbatim>\<open>isEnabled\<close>,
  \<^verbatim>\<open>isAuditEnabled\<close>, \<^verbatim>\<open>isRecursive\<close>); what was written to \<^verbatim>\<open>self\<close> before an
  exception is dropped with it.
\<close>

definition check_policy :: "plugin \<Rightarrow> json \<Rightarrow> pyerr + plugin" where
  "check_policy self policy =
     attempt (getitem policy ''policyName'') (\<lambda>pname.
     attempt (getitem policy ''id'') (\<lambda>pid.
     if opt_truthy (policy_id self) \<and> str pid \<noteq> str_opt (policy_id self)
     then Inl AssertionError
     else
     attempt (getitem policy ''isEnabled'') (\<lambda>enabled.
     attempt (getitem policy ''isAuditEnabled'') (\<lambda>auditing.
     attempt (getitem policy ''isRecursive'') (\<lambda>recursive'.
       Inr (judge self pid pname enabled auditing recursive'))))))"

section \<open>\<^verbatim>\<open>print_policies\<close>\<close>

text \<open>
  What the listing writes when it runs to its end: the dump of every record
  (\<^verbatim>\<open>print(jsonpp(_))\<close>, kept as the record itself because \<^verbatim>\<open>jsonpp\<close> is not in the
  sources), the line of \<^verbatim>\<open>=\<close>, the heading line, the line of \<^verbatim>\<open>=\<close> again and one
  line per record. Text written before an exception is not kept.
\<close>

record listing =
  dumps :: "json list"
  border :: string
  heading :: string
  rows :: "string list"

definition cols :: "(string \<times> string) list" where
  "cols =
     [(''Name'', ''policyName''), (''RepoName'', ''repositoryName''),
      (''RepoType'', ''repositoryType''), (''Description'', ''description''),
      (''Enabled'', ''isEnabled''), (''Audit'', ''isAuditEnabled''),
      (''Recursive'', ''isRecursive''), (''Id'', ''id'')]"

definition columns :: "string list" where
  "columns =
     [''Id'', ''Name'', ''RepoName'', ''RepoType'', ''Enabled'', ''Audit'', ''Recursive'',
      ''Description'']"

text \<open>\<^verbatim>\<open>d[key]\<close> on the two local dicts \<^verbatim>\<open>cols\<close> and \<^verbatim>\<open>widths\<close>.\<close>

definition lookup :: "(string \<rightharpoonup> 'v) \<Rightarrow> string \<Rightarrow> pyerr + 'v" where
  "lookup d k = (case d k of None \<Rightarrow> Inl (KeyError k) | Some v \<Rightarrow> Inr v)"

text \<open>A loop whose body may raise, over a state and over results.\<close>

fun for_each :: "('a \<Rightarrow> 's \<Rightarrow> pyerr + 's) \<Rightarrow> 'a list \<Rightarrow> 's \<Rightarrow> pyerr + 's" where
  "for_each body [] s = Inr s"
| "for_each body (x # xs) s = attempt (body x s) (for_each body xs)"

fun collect :: "('a \<Rightarrow> pyerr + 'b) \<Rightarrow> 'a list \<Rightarrow> pyerr + 'b list" where
  "collect f [] = Inr []"
| "collect f (x # xs) = attempt (f x) (\<lambda>y. attempt (collect f xs) (\<lambda>ys. Inr (y # ys)))"

text \<open>
  \<^verbatim>\<open>'{0:{1}}'.format(v, w)\<close> with a width \<open>w\<close>: a string is padded on the right, an
  int on the left, a bool is formatted as the int it is, and \<^verbatim>\<open>None\<close>, lists and
  dicts take no format specification. The widths that occur are at least 2.
\<close>

definition ljust :: "string \<Rightarrow> nat \<Rightarrow> string" where
  "ljust s w = s @ replicate (w - length s) CHR 0x20"

definition rjust :: "string \<Rightarrow> nat \<Rightarrow> string" where
  "rjust s w = replicate (w - length s) CHR 0x20 @ s"

fun format_width :: "json \<Rightarrow> nat \<Rightarrow> pyerr + string" where
  "format_width (JStr s) w = Inr (ljust s w)"
| "format_width (JInt i) w = Inr (rjust (str_int i) w)"
| "format_width (JBool b) w = Inr (rjust (if b then ''1'' else ''0'') w)"
| "format_width JNull w = Inl TypeError"
| "format_width (JList xs) w = Inl TypeError"
| "format_width (JObj kvs) w = Inl TypeError"

text \<open>Lines 195 to 202: one column of one record in the computation of the widths.\<close>

definition widen :: "json \<Rightarrow> string \<times> string \<Rightarrow> (string \<rightharpoonup> nat) \<Rightarrow> pyerr + (string \<rightharpoonup> nat)" where
  "widen p c widths =
     (if fst c = ''Description'' then Inr widths
      else
        let widths = (if widths (fst c) = None then widths(fst c \<mapsto> 0) else widths)
        in attempt (getitem p (snd c)) (\<lambda>v.
           attempt (lookup widths (fst c)) (\<lambda>old.
             Inr (if length (str v) > old then widths(fst c \<mapsto> length (str v)) else widths))))"

text \<open>
  Lines 190 to 202. The dict \<^verbatim>\<open>cols\<close> is walked in the order in which it is written
  (the insertion order of Python 3.7 and later); the order only decides which of
  several missing fields a \<^verbatim>\<open>KeyError\<close> names.
\<close>

definition compute_widths :: "json list \<Rightarrow> pyerr + (string \<rightharpoonup> nat)" where
  "compute_widths policy_list =
     for_each (\<lambda>p. for_each (widen p) cols) policy_list
       (map_of (map (\<lambda>c. (fst c, length (fst c))) cols))"

text \<open>Lines 203 to 206.\<close>

definition total_width :: "(string \<rightharpoonup> nat) \<Rightarrow> pyerr + nat" where
  "total_width widths =
     for_each (\<lambda>h total. attempt (lookup widths h) (\<lambda>w. Inr (total + (w + 2)))) columns 0"

text \<open>Lines 208 to 210 and the body of the loop of lines 212 to 215.\<close>

definition heading_line :: "(string \<rightharpoonup> nat) \<Rightarrow> pyerr + string" where
  "heading_line widths =
     attempt (collect (\<lambda>h. attempt (lookup widths h) (\<lambda>w. Inr (ljust h w @ ''  ''))) columns)
       (\<lambda>cells. Inr (concat cells))"

definition row_line :: "(string \<rightharpoonup> nat) \<Rightarrow> json \<Rightarrow> pyerr + string" where
  "row_line widths p =
     attempt (collect (\<lambda>col.
                attempt (lookup (map_of cols) col) (\<lambda>key.
                attempt (getitem p key) (\<lambda>v.
                attempt (lookup widths col) (\<lambda>w.
                attempt (format_width v w) (\<lambda>cell. Inr (cell @ ''  '')))))) columns)
       (\<lambda>cells. Inr (concat cells))"

definition print_policies :: "json list \<Rightarrow> pyerr + listing" where
  "print_policies policy_list =
     attempt (compute_widths policy_list) (\<lambda>widths.
     attempt (total_width widths) (\<lambda>total.
     attempt (heading_line widths) (\<lambda>h.
     attempt (collect (row_line widths) policy_list) (\<lambda>rs.
       Inr \<lparr> dumps = policy_list, border = replicate total CHR ''='', heading = h,
             rows = rs \<rparr>))))"

section \<open>\<^verbatim>\<open>parse_json\<close>\<close>

text \<open>
  Modelled from the spec: \<^verbatim>\<open>harisekhon.utils.isList\<close> is not in the repository's
  sources; by 4.1 and 7 of the specification it tells whether the value is a sequence
  (array-shaped).
\<close>

fun isList :: "json \<Rightarrow> bool" where
  "isList (JList xs) = True"
| "isList v = False"

fun elements :: "json \<Rightarrow> json list" where
  "elements (JList xs) = xs"
| "elements v = []"

text \<open>
  How a call of \<^verbatim>\<open>parse_json\<close> ends: with an exception, with \<^verbatim>\<open>sys.exit\<close> after the
  listing, or by returning with the message and the status set in the plugin.
\<close>

datatype outcome =
    Raised pyerr
  | Exited severity listing
  | Returned plugin

fun finish :: "pyerr + plugin \<Rightarrow> outcome" where
  "finish (Inl e) = Raised e"
| "finish (Inr self) = Returned self"

definition host_info :: "plugin \<Rightarrow> string" where
  "host_info self =
     (if verbose self \<noteq> 0 then '' at '' @ quoted (host self @ '':'' @ port self) else [])"

text \<open>
  Lines 118 to 123: the variables \<^verbatim>\<open>policy\<close> and \<^verbatim>\<open>policy_list\<close> after the two
  conditionals.
\<close>

definition policy_and_list :: "plugin \<Rightarrow> json \<Rightarrow> pyerr + json \<times> json" where
  "policy_and_list self json_data =
     (let policy = (if opt_truthy (policy_id self) then json_data else JNull)
      in if \<not> opt_truthy (policy_id self) \<or> list_policies self
         then attempt (getitem json_data ''vXPolicies'') (\<lambda>policy_list. Inr (policy, policy_list))
         else Inr (policy, JList [policy]))"

text \<open>The loop of lines 141 to 144; \<^verbatim>\<open>JNull\<close> when it ends without a match.\<close>

fun find_policy :: "string \<Rightarrow> json list \<Rightarrow> pyerr + json" where
  "find_policy name [] = Inr JNull"
| "find_policy name (p # ps) =
     attempt (getitem p ''policyName'') (\<lambda>v. if v = JStr name then Inr p else find_policy name ps)"

text \<open>Lines 140 to 149: the policy that is handed to \<^verbatim>\<open>check_policy\<close>.\<close>

definition resolve :: "plugin \<Rightarrow> json \<Rightarrow> json list \<Rightarrow> pyerr + json" where
  "resolve self policy policy_list =
     attempt (if policy = JNull \<and> opt_truthy (policy_name self)
              then find_policy (str_opt (policy_name self)) policy_list
              else Inr policy) (\<lambda>policy.
       if \<not> truthy policy
       then Inl (CriticalError (''no matching policy found with name '' @
                   quoted (str_opt (policy_name self)) @ '' in policy list '' @
                   ''returned by Ranger'' @ host_info self))
       else Inr policy)"

definition parse_json :: "plugin \<Rightarrow> json \<Rightarrow> outcome" where
  "parse_json self json_data =
     (case policy_and_list self json_data of
        Inl e \<Rightarrow> Raised e
      | Inr (policy, policy_list) \<Rightarrow>
          if \<not> truthy policy_list then Raised (CriticalError ''no Ranger policies found!'')
          else if \<not> isList policy_list
          then Raised (UnknownError (''non-list returned for json_data[vXPolicies] by Ranger'' @
                                    host_info self))
          else if list_policies self
          then (case print_policies (elements policy_list) of
                  Inl e \<Rightarrow> Raised e
                | Inr l \<Rightarrow> Exited UNKNOWN l)
          else finish (attempt (resolve self policy (elements policy_list)) (check_policy self)))"

section \<open>Notions used to state the properties\<close>

text \<open>The text that one condition contributes to the message.\<close>

definition clause :: "string \<Rightarrow> json \<Rightarrow> bool \<Rightarrow> string" where
  "clause label v failed =
     '', '' @ label @ '' = '' @ str v @ (if failed then '' (expected True)'' else [])"

text \<open>The heading of the message and the mark of a name that differs.\<close>

definition heading_text :: "json \<Rightarrow> json \<Rightarrow> string" where
  "heading_text pid pname =
     ''Ranger policy id '' @ quoted (str pid) @ '' name '' @ quoted (str pname)"

definition expected_name :: "string \<Rightarrow> string" where
  "expected_name n = '' (expected '' @ quoted n @ '')''"

text \<open>The text of the error raised when no policy was resolved (lines 147 to 149).\<close>

definition not_found_text :: "plugin \<Rightarrow> string" where
  "not_found_text self =
     ''no matching policy found with name '' @ quoted (str_opt (policy_name self)) @
     '' in policy list returned by Ranger'' @ host_info self"

text \<open>
  The status a call ends with, and the verdict (status and message) when it returned.
\<close>

fun final_status :: "outcome \<Rightarrow> severity" where
  "final_status (Raised e) = surfaced e"
| "final_status (Exited s l) = s"
| "final_status (Returned self) = status self"

fun verdict :: "outcome \<Rightarrow> (severity \<times> string) option" where
  "verdict (Returned self) = Some (status self, msg self)"
| "verdict (Raised e) = None"
| "verdict (Exited s l) = None"

text \<open>A record with a \<^verbatim>\<open>policyName\<close>, and a record with a given name.\<close>

fun has_name :: "json \<Rightarrow> bool" where
  "has_name p = (case getitem p ''policyName'' of Inl e \<Rightarrow> False | Inr v \<Rightarrow> True)"

definition named :: "string \<Rightarrow> json \<Rightarrow> bool" where
  "named n p = (getitem p ''policyName'' = Inr (JStr n))"

text \<open>
  A value that \<^verbatim>\<open>format\<close> accepts with a width, and a record that the listing can
  print: a dict with the eight fields of \<^verbatim>\<open>cols\<close>, each a string, an int or a bool.
\<close>

fun printable :: "json \<Rightarrow> bool" where
  "printable (JStr s) = True"
| "printable (JInt i) = True"
| "printable (JBool b) = True"
| "printable v = False"

definition listable :: "json \<Rightarrow> bool" where
  "listable p =
     list_all (\<lambda>c. case getitem p (snd c) of Inl e \<Rightarrow> False | Inr v \<Rightarrow> printable v) cols"

text \<open>The exceptions of a failed subscript.\<close>

fun lookup_failure :: "pyerr \<Rightarrow> bool" where
  "lookup_failure (KeyError k) = True"
| "lookup_failure TypeError = True"
| "lookup_failure (CriticalError m) = False"
| "lookup_failure (UnknownError m) = False"
| "lookup_failure AssertionError = False"

section \<open>Sample inputs\<close>

text \<open>
  A policy as Ranger returns it for the check, a policy with the fields of the listing
  as well, and the plugin after \<^verbatim>\<open>process_options\<close> for \<^verbatim>\<open>--name\<close>, for \<^verbatim>\<open>--id\<close>
  with \<^verbatim>\<open>--name\<close>, and for \<^verbatim>\<open>--list-policies\<close>.
\<close>

definition sample_policy :: "json \<Rightarrow> string \<Rightarrow> bool \<Rightarrow> bool \<Rightarrow> bool \<Rightarrow> json" where
  "sample_policy i n e a r =
     JObj [(''id'', i), (''policyName'', JStr n), (''isEnabled'', JBool e),
           (''isAuditEnabled'', JBool a), (''isRecursive'', JBool r)]"

definition sample_row :: "int \<Rightarrow> string \<Rightarrow> json" where
  "sample_row i n =
     JObj [(''id'', JInt i), (''policyName'', JStr n), (''repositoryName'', JStr ''hdfs_repo''),
           (''repositoryType'', JStr ''hdfs''), (''description'', JStr ''home directories''),
           (''isEnabled'', JBool True), (''isAuditEnabled'', JBool True),
           (''isRecursive'', JBool False)]"

definition by_name :: "string \<Rightarrow> plugin" where
  "by_name n = (init ''localhost'' ''6080'')\<lparr>policy_name := Some n\<rparr>"

definition by_id :: "string \<Rightarrow> string option \<Rightarrow> plugin" where
  "by_id i n = (init ''localhost'' ''6080'')\<lparr>policy_id := Some i, policy_name := n\<rparr>"

definition list_mode :: plugin where
  "list_mode = (init ''localhost'' ''6080'')\<lparr>list_policies := True\<rparr>"

definition payload :: "json \<Rightarrow> json" where
  "payload v = JObj [(''vXPolicies'', v)]"

section \<open>Properties of \<^verbatim>\<open>check_policy\<close>\<close>

lemma attempt_Inr_iff: "attempt m f = Inr y \<longleftrightarrow> (\<exists>v. m = Inr v \<and> f v = Inr y)"
  by (cases m) simp_all

lemma attempt_Inl_iff: "attempt m f = Inl e \<longleftrightarrow> m = Inl e \<or> (\<exists>v. m = Inr v \<and> f v = Inl e)"
  by (cases m) simp_all

lemma status_report: "status (report l v failed self) = (if failed then CRITICAL else status self)"
  by (simp add: report_def critical_def)

lemma msg_report: "msg (report l v failed self) = msg self @ clause l v failed"
  by (simp add: report_def critical_def clause_def)

lemma status_check_name:
  "status (check_name pname self) =
     (if name_differs (policy_name self) pname then CRITICAL else status self)"
  by (simp add: check_name_def critical_def)

lemma msg_check_name:
  "msg (check_name pname self) =
     msg self @ (if name_differs (policy_name self) pname
                 then expected_name (str_opt (policy_name self)) else [])"
  by (simp add: check_name_def critical_def expected_name_def)

lemma status_judge:
  "status (judge self pid pname en au re) =
     (if name_differs (policy_name self) pname \<or> \<not> truthy en \<or>
         (\<not> truthy au \<and> \<not> no_audit self) \<or> (recursive self \<and> \<not> truthy re)
      then CRITICAL else status self)"
  by (auto simp add: judge_def status_report status_check_name)

lemma msg_judge:
  "msg (judge self pid pname en au re) =
     heading_text pid pname @
     (if name_differs (policy_name self) pname
      then expected_name (str_opt (policy_name self)) else []) @
     clause ''enabled'' en (\<not> truthy en) @
     clause ''auditing'' au (\<not> truthy au \<and> \<not> no_audit self) @
     clause ''recursive'' re (recursive self \<and> \<not> truthy re)"
  unfolding judge_def msg_report msg_check_name heading_text_def by simp

lemma check_policy_fields:
  assumes "getitem policy ''policyName'' = Inr pname"
    and "getitem policy ''id'' = Inr pid"
    and "getitem policy ''isEnabled'' = Inr en"
    and "getitem policy ''isAuditEnabled'' = Inr au"
    and "getitem policy ''isRecursive'' = Inr re"
    and "opt_truthy (policy_id self) \<longrightarrow> str pid = str_opt (policy_id self)"
  shows "check_policy self policy = Inr (judge self pid pname en au re)"
  using assms by (auto simp add: check_policy_def)

lemma check_policy_returns:
  assumes "check_policy self policy = Inr self'"
  shows "\<exists>pname pid en au re.
    getitem policy ''policyName'' = Inr pname \<and> getitem policy ''id'' = Inr pid \<and>
    getitem policy ''isEnabled'' = Inr en \<and> getitem policy ''isAuditEnabled'' = Inr au \<and>
    getitem policy ''isRecursive'' = Inr re \<and>
    (opt_truthy (policy_id self) \<longrightarrow> str pid = str_opt (policy_id self)) \<and>
    self' = judge self pid pname en au re"
proof -
  from assms obtain pname where 1: "getitem policy ''policyName'' = Inr pname"
    unfolding check_policy_def by (cases "getitem policy ''policyName''") simp_all
  from assms 1 obtain pid where 2: "getitem policy ''id'' = Inr pid"
    unfolding check_policy_def by (cases "getitem policy ''id''") simp_all
  from assms 1 2 have 3: "opt_truthy (policy_id self) \<longrightarrow> str pid = str_opt (policy_id self)"
    unfolding check_policy_def by (auto split: if_splits)
  from assms 1 2 3 obtain en where 4: "getitem policy ''isEnabled'' = Inr en"
    unfolding check_policy_def by (cases "getitem policy ''isEnabled''") auto
  from assms 1 2 3 4 obtain au where 5: "getitem policy ''isAuditEnabled'' = Inr au"
    unfolding check_policy_def by (cases "getitem policy ''isAuditEnabled''") auto
  from assms 1 2 3 4 5 obtain re where 6: "getitem policy ''isRecursive'' = Inr re"
    unfolding check_policy_def by (cases "getitem policy ''isRecursive''") auto
  from check_policy_fields [OF 1 2 4 5 6 3] assms
  have "self' = judge self pid pname en au re" by simp
  with 1 2 3 4 5 6 show ?thesis by blast
qed

lemma dec_nat_digit: "n < 10 \<Longrightarrow> dec_nat n = [digit_char n]"
  by (simp add: dec_nat.simps)

lemma clause_enabled_False:
  "clause ''enabled'' (JBool False) True = '', '' @ ''enabled = False (expected True)''"
  by (simp add: clause_def str_bool_def)

lemma getitem_sample_policy:
  "getitem (sample_policy i n e a r) ''policyName'' = Inr (JStr n)"
  "getitem (sample_policy i n e a r) ''id'' = Inr i"
  "getitem (sample_policy i n e a r) ''isEnabled'' = Inr (JBool e)"
  "getitem (sample_policy i n e a r) ''isAuditEnabled'' = Inr (JBool a)"
  "getitem (sample_policy i n e a r) ''isRecursive'' = Inr (JBool r)"
  by (simp_all add: sample_policy_def)

lemma sublist_mid: "ys = ps @ xs @ ss \<Longrightarrow> sublist xs ys"
  unfolding sublist_def by blast

text \<open>
  C6. Whenever \<^verbatim>\<open>check_policy\<close> returns for a policy whose \<^verbatim>\<open>isEnabled\<close> is
  \<^verbatim>\<open>false\<close>, the status is CRITICAL and the message contains
  \<^verbatim>\<open>enabled = False (expected True)\<close>, whatever the other fields of the policy and
  the options of the plugin are.
\<close>

theorem C6_disabled_policy_is_critical:
  assumes "check_policy self policy = Inr self'"
    and "getitem policy ''isEnabled'' = Inr (JBool False)"
  shows "status self' = CRITICAL \<and> sublist ''enabled = False (expected True)'' (msg self')"
proof -
  from check_policy_returns [OF assms(1)] assms(2)
  obtain pname pid au re where eq: "self' = judge self pid pname (JBool False) au re"
    by auto
  have st: "status self' = CRITICAL"
    unfolding eq by (simp add: status_judge)
  define H where "H = heading_text pid pname @
     (if name_differs (policy_name self) pname
      then expected_name (str_opt (policy_name self)) else [])"
  define T where "T = clause ''auditing'' au (\<not> truthy au \<and> \<not> no_audit self) @
     clause ''recursive'' re (recursive self \<and> \<not> truthy re)"
  have "msg self' = H @ clause ''enabled'' (JBool False) True @ T"
    unfolding eq msg_judge H_def T_def by simp
  then have "msg self' = (H @ '', '') @ ''enabled = False (expected True)'' @ T"
    by (simp only: clause_enabled_False append_assoc)
  then have "sublist ''enabled = False (expected True)'' (msg self')"
    by (rule sublist_mid)
  with st show ?thesis by simp
qed

theorem C6_disabled_policy_is_critical_witness:
  "check_policy (by_name ''p1'') (sample_policy (JInt 1) ''p1'' False True True) =
     Inr (judge (by_name ''p1'') (JInt 1) (JStr ''p1'') (JBool False) (JBool True) (JBool True)) \<and>
   getitem (sample_policy (JInt 1) ''p1'' False True True) ''isEnabled'' = Inr (JBool False) \<and>
   status (judge (by_name ''p1'') (JInt 1) (JStr ''p1'') (JBool False) (JBool True) (JBool True))
     = CRITICAL \<and>
   sublist ''enabled = False (expected True)''
     (msg (judge (by_name ''p1'') (JInt 1) (JStr ''p1'') (JBool False) (JBool True) (JBool True)))"
proof -
  have 1: "check_policy (by_name ''p1'') (sample_policy (JInt 1) ''p1'' False True True) =
     Inr (judge (by_name ''p1'') (JInt 1) (JStr ''p1'') (JBool False) (JBool True) (JBool True))"
    by (rule check_policy_fields) (simp_all add: getitem_sample_policy by_name_def init_def)
  have 2: "getitem (sample_policy (JInt 1) ''p1'' False True True) ''isEnabled'' = Inr (JBool False)"
    by (rule getitem_sample_policy)
  from C6_disabled_policy_is_critical [OF 1 2] 1 2 show ?thesis by blast
qed

lemma getitem_Inr_truthy: "getitem p k = Inr v \<Longrightarrow> truthy p \<and> p \<noteq> JNull"
  by (cases p) (auto split: option.splits)

lemma getitem_error: "getitem p k = Inl e \<Longrightarrow> e = KeyError k \<or> e = TypeError"
  by (cases p) (auto split: option.splits)

section \<open>Properties of \<^verbatim>\<open>parse_json\<close> with a policy id\<close>

lemma parse_json_direct:
  assumes "opt_truthy (policy_id self)" and "\<not> list_policies self" and "truthy json_data"
  shows "parse_json self json_data = finish (check_policy self json_data)"
proof -
  from assms(3) have "json_data \<noteq> JNull" by auto
  with assms show ?thesis
    by (simp add: parse_json_def policy_and_list_def resolve_def)
qed

lemma parse_json_direct_falsy:
  assumes "opt_truthy (policy_id self)" and "\<not> list_policies self" and "\<not> truthy json_data"
    and "json_data \<noteq> JNull \<or> \<not> opt_truthy (policy_name self)"
  shows "parse_json self json_data = Raised (CriticalError (not_found_text self))"
  using assms
  by (auto simp add: parse_json_def policy_and_list_def resolve_def not_found_text_def)

text \<open>
  C1. For the payload with the single policy \<^verbatim>\<open>p1\<close> (id 1, enabled, audited, not
  recursive), the criteria \<^verbatim>\<open>--name p1\<close> and the default options, the check returns
  with status OK; the message is the claimed text preceded by \<^verbatim>\<open>Ranger\<close> and a blank,
  which line 158 writes at its head.
\<close>

theorem C1_scenario_by_name:
  "verdict (parse_json (by_name ''p1'')
            (payload (JList [sample_policy (JInt 1) ''p1'' True True False]))) =
     Some (OK, ''Ranger policy id '1' name 'p1', enabled = True, auditing = True, recursive = False'')"
  by code_simp

theorem C1_message_counterexample:
  "verdict (parse_json (by_name ''p1'')
            (payload (JList [sample_policy (JInt 1) ''p1'' True True False]))) \<noteq>
     Some (OK, ''policy id '1' name 'p1', enabled = True, auditing = True, recursive = False'')"
  by code_simp

section \<open>The conditions of \<^verbatim>\<open>check_policy\<close>\<close>

text \<open>
  C7. For a policy whose name is the expected one and which is enabled, checked by a
  plugin whose status is OK: the status after the check is CRITICAL exactly when
  auditing is off while it is required (\<^verbatim>\<open>--no-audit\<close> not given) or the policy is
  not recursive while \<^verbatim>\<open>--recursive\<close> was given, and OK otherwise; each of the two
  clauses carries the mark \<^verbatim>\<open>(expected True)\<close> under the same condition. A waived
  audit requirement or a recursion that was not asked for raises nothing.
\<close>

theorem C7_audit_and_recursive_clauses:
  assumes "check_policy self policy = Inr self'"
    and "status self = OK"
    and "getitem policy ''policyName'' = Inr pname"
    and "\<not> name_differs (policy_name self) pname"
    and "getitem policy ''id'' = Inr pid"
    and "getitem policy ''isEnabled'' = Inr (JBool True)"
    and "getitem policy ''isAuditEnabled'' = Inr (JBool a)"
    and "getitem policy ''isRecursive'' = Inr (JBool r)"
  shows "status self' =
           (if (\<not> a \<and> \<not> no_audit self) \<or> (\<not> r \<and> recursive self) then CRITICAL else OK) \<and>
         msg self' = heading_text pid pname @ clause ''enabled'' (JBool True) False @
           clause ''auditing'' (JBool a) (\<not> a \<and> \<not> no_audit self) @
           clause ''recursive'' (JBool r) (\<not> r \<and> recursive self)"
proof -
  from check_policy_returns [OF assms(1)] assms(3,5,6,7,8)
  have eq: "self' = judge self pid pname (JBool True) (JBool a) (JBool r)"
    by auto
  have st: "status self' =
      (if (\<not> a \<and> \<not> no_audit self) \<or> (\<not> r \<and> recursive self) then CRITICAL else OK)"
    unfolding eq status_judge using assms(2,4) by auto
  have "(recursive self \<and> \<not> r) = (\<not> r \<and> recursive self)" by blast
  then have ms: "msg self' = heading_text pid pname @ clause ''enabled'' (JBool True) False @
           clause ''auditing'' (JBool a) (\<not> a \<and> \<not> no_audit self) @
           clause ''recursive'' (JBool r) (\<not> r \<and> recursive self)"
    unfolding eq msg_judge using assms(4) by simp
  from st ms show ?thesis by (rule conjI)
qed

theorem C7_audit_and_recursive_clauses_witness:
  "check_policy (by_name ''p1'') (sample_policy (JInt 1) ''p1'' True False False) =
     Inr (judge (by_name ''p1'') (JInt 1) (JStr ''p1'') (JBool True) (JBool False) (JBool False)) \<and>
   status (judge (by_name ''p1'') (JInt 1) (JStr ''p1'') (JBool True) (JBool False) (JBool False))
     = CRITICAL \<and>
   check_policy ((by_name ''p1'')\<lparr>no_audit := True\<rparr>) (sample_policy (JInt 1) ''p1'' True False False) =
     Inr (judge ((by_name ''p1'')\<lparr>no_audit := True\<rparr>) (JInt 1) (JStr ''p1'')
            (JBool True) (JBool False) (JBool False)) \<and>
   status (judge ((by_name ''p1'')\<lparr>no_audit := True\<rparr>) (JInt 1) (JStr ''p1'')
            (JBool True) (JBool False) (JBool False)) = OK \<and>
   check_policy ((by_name ''p1'')\<lparr>recursive := True\<rparr>) (sample_policy (JInt 1) ''p1'' True True False) =
     Inr (judge ((by_name ''p1'')\<lparr>recursive := True\<rparr>) (JInt 1) (JStr ''p1'')
            (JBool True) (JBool True) (JBool False)) \<and>
   status (judge ((by_name ''p1'')\<lparr>recursive := True\<rparr>) (JInt 1) (JStr ''p1'')
            (JBool True) (JBool True) (JBool False)) = CRITICAL"
proof -
  have 1: "check_policy (by_name ''p1'') (sample_policy (JInt 1) ''p1'' True False False) =
     Inr (judge (by_name ''p1'') (JInt 1) (JStr ''p1'') (JBool True) (JBool False) (JBool False))"
    by (rule check_policy_fields) (simp_all add: getitem_sample_policy by_name_def init_def)
  have 2: "check_policy ((by_name ''p1'')\<lparr>no_audit := True\<rparr>)
        (sample_policy (JInt 1) ''p1'' True False False) =
     Inr (judge ((by_name ''p1'')\<lparr>no_audit := True\<rparr>) (JInt 1) (JStr ''p1'')
            (JBool True) (JBool False) (JBool False))"
    by (rule check_policy_fields) (simp_all add: getitem_sample_policy by_name_def init_def)
  have 3: "check_policy ((by_name ''p1'')\<lparr>recursive := True\<rparr>)
        (sample_policy (JInt 1) ''p1'' True True False) =
     Inr (judge ((by_name ''p1'')\<lparr>recursive := True\<rparr>) (JInt 1) (JStr ''p1'')
            (JBool True) (JBool True) (JBool False))"
    by (rule check_policy_fields) (simp_all add: getitem_sample_policy by_name_def init_def)
  have a: "status (by_name ''p1'') = OK" "\<not> name_differs (policy_name (by_name ''p1'')) (JStr ''p1'')"
    "no_audit (by_name ''p1'') = False" "recursive (by_name ''p1'') = False"
    by (simp_all add: by_name_def init_def)
  from C7_audit_and_recursive_clauses
    [OF 1 _ getitem_sample_policy(1) _ getitem_sample_policy(2-5)] a
  have s1: "status (judge (by_name ''p1'') (JInt 1) (JStr ''p1'') (JBool True) (JBool False)
              (JBool False)) = CRITICAL"
    by simp
  from C7_audit_and_recursive_clauses
    [OF 2 _ getitem_sample_policy(1) _ getitem_sample_policy(2-5)] a
  have s2: "status (judge ((by_name ''p1'')\<lparr>no_audit := True\<rparr>) (JInt 1) (JStr ''p1'')
            (JBool True) (JBool False) (JBool False)) = OK"
    by simp
  from C7_audit_and_recursive_clauses
    [OF 3 _ getitem_sample_policy(1) _ getitem_sample_policy(2-5)] a
  have s3: "status (judge ((by_name ''p1'')\<lparr>recursive := True\<rparr>) (JInt 1) (JStr ''p1'')
            (JBool True) (JBool True) (JBool False)) = CRITICAL"
    by simp
  from 1 2 3 s1 s2 s3 show ?thesis by blast
qed

text \<open>
  C8. In a lookup by id (\<^verbatim>\<open>--id\<close> given, no listing) the payload is the policy. When
  its name differs from the one given with \<^verbatim>\<open>--name\<close> and it is disabled, the check
  returns with status CRITICAL and the message holds both the mark of the name,
  \<^verbatim>\<open> (expected '<name>')\<close>, and the marked clause
  \<^verbatim>\<open>enabled = False (expected True)\<close>: the first failure does not end the check.
\<close>

theorem C8_failures_accumulate:
  assumes "opt_truthy (policy_id self)" and "\<not> list_policies self"
    and "policy_name self = Some n"
    and "getitem json_data ''policyName'' = Inr pname" and "pname \<noteq> JStr n"
    and "getitem json_data ''id'' = Inr pid" and "str pid = str_opt (policy_id self)"
    and "getitem json_data ''isEnabled'' = Inr (JBool False)"
    and "getitem json_data ''isAuditEnabled'' = Inr au"
    and "getitem json_data ''isRecursive'' = Inr re"
  shows "\<exists>self'. parse_json self json_data = Returned self' \<and> status self' = CRITICAL \<and>
           sublist ('' (expected '' @ quoted n @ '')'') (msg self') \<and>
           sublist ''enabled = False (expected True)'' (msg self')"
proof -
  define self' where "self' = judge self pid pname (JBool False) au re"
  have chk: "check_policy self json_data = Inr self'"
    unfolding self'_def using assms(4,6,8,9,10,7) by (intro check_policy_fields) simp_all
  from assms(4) have "truthy json_data" by (simp add: getitem_Inr_truthy)
  with assms(1,2) chk have ret: "parse_json self json_data = Returned self'"
    by (simp add: parse_json_direct)
  have st: "status self' = CRITICAL"
    unfolding self'_def by (simp add: status_judge)
  from assms(3,5) have nd: "name_differs (policy_name self) pname" by auto
  define T where "T = clause ''auditing'' au (\<not> truthy au \<and> \<not> no_audit self) @
     clause ''recursive'' re (recursive self \<and> \<not> truthy re)"
  have m: "msg self' = heading_text pid pname @ expected_name n @
             clause ''enabled'' (JBool False) True @ T"
    unfolding self'_def msg_judge T_def using nd assms(3) by simp
  then have "msg self' = heading_text pid pname @ ('' (expected '' @ quoted n @ '')'') @
             (clause ''enabled'' (JBool False) True @ T)"
    by (simp only: expected_name_def append_assoc)
  then have s1: "sublist ('' (expected '' @ quoted n @ '')'') (msg self')"
    by (rule sublist_mid)
  from m have "msg self' = (heading_text pid pname @ expected_name n @ '', '') @
             ''enabled = False (expected True)'' @ T"
    by (simp only: clause_enabled_False append_assoc)
  then have s2: "sublist ''enabled = False (expected True)'' (msg self')"
    by (rule sublist_mid)
  from ret st s1 s2 show ?thesis by blast
qed

theorem C8_failures_accumulate_witness:
  "final_status (parse_json (by_id ''2'' (Some ''p1''))
     (sample_policy (JInt 2) ''other'' False True True)) = CRITICAL \<and>
   (\<exists>self'. parse_json (by_id ''2'' (Some ''p1''))
              (sample_policy (JInt 2) ''other'' False True True) = Returned self' \<and>
            status self' = CRITICAL \<and>
            sublist ('' (expected '' @ quoted ''p1'' @ '')'') (msg self') \<and>
            sublist ''enabled = False (expected True)'' (msg self'))"
proof -
  have a: "opt_truthy (policy_id (by_id ''2'' (Some ''p1'')))"
    "\<not> list_policies (by_id ''2'' (Some ''p1''))"
    "policy_name (by_id ''2'' (Some ''p1'')) = Some ''p1''"
    by (simp_all add: by_id_def init_def)
  have b: "JStr ''other'' \<noteq> JStr ''p1''" by simp
  have c: "str (JInt 2) = str_opt (policy_id (by_id ''2'' (Some ''p1'')))"
    by (simp add: by_id_def init_def str_int_def dec_nat_digit digit_char_def)
  note g = getitem_sample_policy [of "JInt 2" "''other''" False True True]
  from C8_failures_accumulate [OF a g(1) b g(2) c g(3) g(4) g(5)]
  have ex: "\<exists>self'. parse_json (by_id ''2'' (Some ''p1''))
              (sample_policy (JInt 2) ''other'' False True True) = Returned self' \<and>
            status self' = CRITICAL \<and>
            sublist ('' (expected '' @ quoted ''p1'' @ '')'') (msg self') \<and>
            sublist ''enabled = False (expected True)'' (msg self')" .
  then obtain self' where "parse_json (by_id ''2'' (Some ''p1''))
              (sample_policy (JInt 2) ''other'' False True True) = Returned self'"
      and "status self' = CRITICAL"
    by blast
  then have "final_status (parse_json (by_id ''2'' (Some ''p1''))
     (sample_policy (JInt 2) ''other'' False True True)) = CRITICAL"
    by simp
  then show ?thesis using ex by (rule conjI)
qed

lemma check_policy_assertion:
  assumes "getitem policy ''policyName'' = Inr pname" and "getitem policy ''id'' = Inr pid"
  shows "check_policy self policy = Inl AssertionError \<longleftrightarrow>
           opt_truthy (policy_id self) \<and> str pid \<noteq> str_opt (policy_id self)"
proof (cases "opt_truthy (policy_id self) \<and> str pid \<noteq> str_opt (policy_id self)")
  case True
  with assms show ?thesis by (simp add: check_policy_def)
next
  case False
  have "check_policy self policy \<noteq> Inl AssertionError"
  proof
    assume a: "check_policy self policy = Inl AssertionError"
    with assms False have
      "attempt (getitem policy ''isEnabled'') (\<lambda>enabled.
       attempt (getitem policy ''isAuditEnabled'') (\<lambda>auditing.
       attempt (getitem policy ''isRecursive'') (\<lambda>recursive'.
         Inr (judge self pid pname enabled auditing recursive')))) = Inl AssertionError"
      by (auto simp add: check_policy_def split: if_splits)
    then show False
      by (auto simp add: attempt_Inl_iff dest: getitem_error)
  qed
  with False show ?thesis by blast
qed

text \<open>
  C9. With \<^verbatim>\<open>--id\<close> given, \<^verbatim>\<open>check_policy\<close> compares \<^verbatim>\<open>str\<close> of the policy's id with
  the id of the command line. When the two texts differ the call ends with an
  \<^verbatim>\<open>AssertionError\<close>, which is no \<^verbatim>\<open>CriticalError\<close> and no returned CRITICAL status
  and surfaces as UNKNOWN; when they are equal, as for the integer 2 and the text
  \<^verbatim>\<open>2\<close>, no \<^verbatim>\<open>AssertionError\<close> is raised.
\<close>

theorem C9_id_is_asserted:
  assumes "opt_truthy (policy_id self)"
    and "getitem policy ''policyName'' = Inr pname" and "getitem policy ''id'' = Inr pid"
  shows "(str pid \<noteq> str_opt (policy_id self) \<longrightarrow>
            check_policy self policy = Inl AssertionError \<and>
            final_status (finish (check_policy self policy)) = UNKNOWN) \<and>
         (str pid = str_opt (policy_id self) \<longrightarrow>
            check_policy self policy \<noteq> Inl AssertionError) \<and>
         str (JInt 2) = ''2''"
proof -
  have "str (JInt 2) = ''2''"
    by (simp add: str_int_def dec_nat_digit digit_char_def)
  with check_policy_assertion [OF assms(2,3), of self] assms(1) show ?thesis
    by auto
qed

theorem C9_id_is_asserted_witness:
  "check_policy (by_id ''3'' None) (sample_policy (JInt 2) ''p1'' True True True) =
     Inl AssertionError \<and>
   final_status (finish (check_policy (by_id ''3'' None)
     (sample_policy (JInt 2) ''p1'' True True True))) = UNKNOWN \<and>
   check_policy (by_id ''2'' None) (sample_policy (JInt 2) ''p1'' True True True) \<noteq>
     Inl AssertionError"
proof -
  have a: "opt_truthy (policy_id (by_id ''3'' None))" "opt_truthy (policy_id (by_id ''2'' None))"
    by (simp_all add: by_id_def init_def)
  have ne: "str (JInt 2) \<noteq> str_opt (policy_id (by_id ''3'' None))"
    by (simp add: by_id_def init_def str_int_def dec_nat_digit digit_char_def)
  have eq: "str (JInt 2) = str_opt (policy_id (by_id ''2'' None))"
    by (simp add: by_id_def init_def str_int_def dec_nat_digit digit_char_def)
  note g = getitem_sample_policy [of "JInt 2" "''p1''" True True True]
  from C9_id_is_asserted [OF a(1) g(1) g(2)] ne
  have 1: "check_policy (by_id ''3'' None) (sample_policy (JInt 2) ''p1'' True True True) =
     Inl AssertionError \<and>
     final_status (finish (check_policy (by_id ''3'' None)
       (sample_policy (JInt 2) ''p1'' True True True))) = UNKNOWN"
    by blast
  from C9_id_is_asserted [OF a(2) g(1) g(2)] eq
  have 2: "check_policy (by_id ''2'' None) (sample_policy (JInt 2) ''p1'' True True True) \<noteq>
     Inl AssertionError"
    by blast
  from 1 2 show ?thesis by blast
qed

section \<open>Properties of \<^verbatim>\<open>parse_json\<close> on a list of policies\<close>

lemma policy_and_list_listed:
  assumes "\<not> opt_truthy (policy_id self) \<or> list_policies self"
  shows "policy_and_list self json_data =
           attempt (getitem json_data ''vXPolicies'')
             (\<lambda>policy_list. Inr (if opt_truthy (policy_id self) then json_data else JNull,
                                  policy_list))"
  using assms by (auto simp add: policy_and_list_def)

lemma parse_json_no_field:
  assumes "\<not> opt_truthy (policy_id self) \<or> list_policies self"
    and "getitem json_data ''vXPolicies'' = Inl e"
  shows "parse_json self json_data = Raised e"
  using assms by (simp add: parse_json_def policy_and_list_listed)

lemma parse_json_falsy_list:
  assumes "\<not> opt_truthy (policy_id self) \<or> list_policies self"
    and "getitem json_data ''vXPolicies'' = Inr v" and "\<not> truthy v"
  shows "parse_json self json_data = Raised (CriticalError ''no Ranger policies found!'')"
  using assms by (simp add: parse_json_def policy_and_list_listed)

lemma parse_json_non_list:
  assumes "\<not> opt_truthy (policy_id self) \<or> list_policies self"
    and "getitem json_data ''vXPolicies'' = Inr v" and "truthy v" and "\<not> isList v"
  shows "parse_json self json_data =
           Raised (UnknownError (''non-list returned for json_data[vXPolicies] by Ranger'' @
                                 host_info self))"
  using assms by (simp add: parse_json_def policy_and_list_listed)

lemma parse_json_by_name:
  assumes "\<not> opt_truthy (policy_id self)" and "\<not> list_policies self"
    and "getitem json_data ''vXPolicies'' = Inr (JList ps)" and "ps \<noteq> []"
  shows "parse_json self json_data = finish (attempt (resolve self JNull ps) (check_policy self))"
  using assms by (simp add: parse_json_def policy_and_list_listed)

lemma parse_json_listing:
  assumes "list_policies self"
    and "getitem json_data ''vXPolicies'' = Inr (JList ps)" and "ps \<noteq> []"
  shows "parse_json self json_data =
           (case print_policies ps of Inl e \<Rightarrow> Raised e | Inr l \<Rightarrow> Exited UNKNOWN l)"
  using assms by (simp add: parse_json_def policy_and_list_listed)

lemma find_policy_first:
  assumes "\<forall>q\<in>set pre. has_name q \<and> \<not> named n q" and "named n p"
  shows "find_policy n (pre @ p # post) = Inr p"
  using assms
proof (induction pre)
  case Nil
  then show ?case by (simp add: named_def)
next
  case (Cons q pre)
  then obtain v where "getitem q ''policyName'' = Inr v" and "v \<noteq> JStr n"
    by (cases "getitem q ''policyName''") (auto simp add: named_def)
  with Cons show ?case by simp
qed

lemma find_policy_none:
  assumes "\<forall>q\<in>set ps. has_name q \<and> \<not> named n q"
  shows "find_policy n ps = Inr JNull"
  using assms
proof (induction ps)
  case Nil
  then show ?case by simp
next
  case (Cons q ps)
  then obtain v where "getitem q ''policyName'' = Inr v" and "v \<noteq> JStr n"
    by (cases "getitem q ''policyName''") (auto simp add: named_def)
  with Cons show ?case by simp
qed

lemma find_policy_sound:
  assumes "find_policy n ps = Inr p"
  shows "p = JNull \<or> (p \<in> set ps \<and> named n p)"
  using assms
proof (induction ps)
  case Nil
  then show ?case by simp
next
  case (Cons q ps)
  then show ?case
    by (cases "getitem q ''policyName''") (auto simp add: named_def split: if_splits)
qed

lemma named_truthy: "named n p \<Longrightarrow> truthy p \<and> p \<noteq> JNull"
  unfolding named_def by (rule getitem_Inr_truthy)

lemma not_found_text_alt:
  "not_found_text self =
     ''no matching policy found with name '' @ quoted (str_opt (policy_name self)) @
     '' in policy list '' @ ''returned by Ranger'' @ host_info self"
  by (simp add: not_found_text_def)

lemma resolve_by_name:
  assumes "opt_truthy (policy_name self)"
  shows "resolve self JNull ps =
           attempt (find_policy (str_opt (policy_name self)) ps) (\<lambda>policy.
             if \<not> truthy policy then Inl (CriticalError (not_found_text self)) else Inr policy)"
  unfolding resolve_def not_found_text_alt using assms by simp

lemma resolve_first:
  assumes "policy_name self = Some n" and "n \<noteq> []"
    and "\<forall>q\<in>set pre. has_name q \<and> \<not> named n q" and "named n p"
  shows "resolve self JNull (pre @ p # post) = Inr p"
proof -
  from assms(1,2) have "opt_truthy (policy_name self)" by simp
  with assms(1) find_policy_first [OF assms(3,4), of post] named_truthy [OF assms(4)]
  show ?thesis by (simp add: resolve_by_name)
qed

lemma resolve_none:
  assumes "policy_name self = Some n" and "n \<noteq> []"
    and "\<forall>q\<in>set ps. has_name q \<and> \<not> named n q"
  shows "resolve self JNull ps = Inl (CriticalError (not_found_text self))"
proof -
  from assms(1,2) have "opt_truthy (policy_name self)" by simp
  with assms(1) find_policy_none [OF assms(3)]
  show ?thesis by (simp add: resolve_by_name)
qed

lemma resolve_sound:
  assumes "policy_name self = Some n" and "n \<noteq> []"
    and "resolve self JNull ps = Inr p"
  shows "p \<in> set ps \<and> named n p"
proof -
  from assms(1,2) have t: "opt_truthy (policy_name self)" by simp
  from assms(3) obtain q where f: "find_policy n ps = Inr q"
    and r: "(if \<not> truthy q then Inl (CriticalError (not_found_text self)) else Inr q) = Inr p"
    unfolding resolve_by_name [OF t] using assms(1) by (auto simp add: attempt_Inr_iff)
  from r have "truthy q" and "q = p" by (auto split: if_splits)
  with find_policy_sound [OF f] show ?thesis by auto
qed

text \<open>
  C5. In a lookup by name (\<^verbatim>\<open>--name\<close> given, no \<^verbatim>\<open>--id\<close>, no listing) over a list of
  policies that all carry a \<^verbatim>\<open>policyName\<close>: the policy resolved is the first one of
  the list whose name is equal to the given name as a string, and it is the one
  handed to \<^verbatim>\<open>check_policy\<close>; when no policy has that name the check ends with the
  \<^verbatim>\<open>CriticalError\<close> whose text quotes the name; and a policy that is resolved always
  is a member of the list that has the given name.
\<close>

theorem C5_first_match_by_name:
  assumes "\<not> opt_truthy (policy_id self)" and "\<not> list_policies self"
    and "policy_name self = Some n" and "n \<noteq> []"
    and "getitem json_data ''vXPolicies'' = Inr (JList ps)" and "ps \<noteq> []"
    and "\<forall>q\<in>set ps. has_name q"
  shows "(\<forall>pre p post. ps = pre @ p # post \<and> named n p \<and> (\<forall>q\<in>set pre. \<not> named n q) \<longrightarrow>
            resolve self JNull ps = Inr p \<and>
            parse_json self json_data = finish (check_policy self p)) \<and>
         ((\<forall>q\<in>set ps. \<not> named n q) \<longrightarrow>
            parse_json self json_data =
              Raised (CriticalError (''no matching policy found with name '' @ quoted n @
                        '' in policy list returned by Ranger'' @ host_info self)) \<and>
            final_status (parse_json self json_data) = CRITICAL) \<and>
         (\<forall>p. resolve self JNull ps = Inr p \<longrightarrow> p \<in> set ps \<and> named n p)"
proof (intro conjI allI impI)
  note pj = parse_json_by_name [OF assms(1,2,5,6)]
  {
    fix pre p post
    assume h: "ps = pre @ p # post \<and> named n p \<and> (\<forall>q\<in>set pre. \<not> named n q)"
    with assms(7) have "\<forall>q\<in>set pre. has_name q \<and> \<not> named n q" by auto
    with h have r: "resolve self JNull (pre @ p # post) = Inr p"
      by (intro resolve_first [OF assms(3,4)]) auto
    with h show "resolve self JNull ps = Inr p" by simp
    with pj show "parse_json self json_data = finish (check_policy self p)" by simp
  }
  {
    assume "\<forall>q\<in>set ps. \<not> named n q"
    with assms(7) have "\<forall>q\<in>set ps. has_name q \<and> \<not> named n q" by auto
    from resolve_none [OF assms(3,4) this] pj
    have "parse_json self json_data = Raised (CriticalError (not_found_text self))" by simp
    with assms(3) show p: "parse_json self json_data =
              Raised (CriticalError (''no matching policy found with name '' @ quoted n @
                        '' in policy list returned by Ranger'' @ host_info self))"
      by (simp add: not_found_text_def)
    show "final_status (parse_json self json_data) = CRITICAL"
      unfolding p by simp
  }
  {
    fix p
    assume r: "resolve self JNull ps = Inr p"
    from resolve_sound [OF assms(3,4) r]
    show "p \<in> set ps" and "named n p" by auto
  }
qed

theorem C5_first_match_by_name_witness:
  "resolve (by_name ''p1'') JNull
     [sample_policy (JInt 7) ''P1'' True True True, sample_policy (JInt 1) ''p1'' True True False,
      sample_policy (JInt 2) ''p1'' False True True] =
     Inr (sample_policy (JInt 1) ''p1'' True True False) \<and>
   parse_json (by_name ''p1'')
     (payload (JList [sample_policy (JInt 7) ''P1'' True True True,
        sample_policy (JInt 1) ''p1'' True True False,
        sample_policy (JInt 2) ''p1'' False True True])) =
     finish (check_policy (by_name ''p1'') (sample_policy (JInt 1) ''p1'' True True False)) \<and>
   final_status (parse_json (by_name ''zz'')
     (payload (JList [sample_policy (JInt 7) ''P1'' True True True,
        sample_policy (JInt 1) ''p1'' True True False,
        sample_policy (JInt 2) ''p1'' False True True]))) = CRITICAL"
proof -
  define A where "A = sample_policy (JInt 7) ''P1'' True True True"
  define B where "B = sample_policy (JInt 1) ''p1'' True True False"
  define C where "C = sample_policy (JInt 2) ''p1'' False True True"
  have a: "\<not> opt_truthy (policy_id (by_name k))" "\<not> list_policies (by_name k)"
    "policy_name (by_name k) = Some k" for k
    by (simp_all add: by_name_def init_def)
  have g: "getitem (payload (JList [A, B, C])) ''vXPolicies'' = Inr (JList [A, B, C])"
    by (simp add: payload_def)
  have ne: "[A, B, C] \<noteq> []" by simp
  have hn: "\<forall>q\<in>set [A, B, C]. has_name q"
    by (simp add: A_def B_def C_def getitem_sample_policy)
  have nm: "[A, B, C] = [A] @ B # [C] \<and> named ''p1'' B \<and> (\<forall>q\<in>set [A]. \<not> named ''p1'' q)"
    by (simp add: A_def B_def named_def getitem_sample_policy)
  have zz: "\<forall>q\<in>set [A, B, C]. \<not> named ''zz'' q"
    by (simp add: A_def B_def C_def named_def getitem_sample_policy)
  have p1: "''p1'' \<noteq> []" and z: "''zz'' \<noteq> []" by simp_all
  from C5_first_match_by_name [OF a(1) a(2) a(3) p1 g ne hn] nm
  have 1: "resolve (by_name ''p1'') JNull [A, B, C] = Inr B \<and>
     parse_json (by_name ''p1'') (payload (JList [A, B, C])) = finish (check_policy (by_name ''p1'') B)"
    by blast
  from C5_first_match_by_name [OF a(1) a(2) a(3) z g ne hn] zz
  have 2: "final_status (parse_json (by_name ''zz'') (payload (JList [A, B, C]))) = CRITICAL"
    by blast
  from 1 2 show ?thesis unfolding A_def B_def C_def by blast
qed

text \<open>
  C3. When \<^verbatim>\<open>vXPolicies\<close> is read (no \<^verbatim>\<open>--id\<close>, or a listing): if the subscript
  fails, because the payload lacks the field or is no dict, the \<^verbatim>\<open>KeyError\<close> or
  \<^verbatim>\<open>TypeError\<close> ends the call and surfaces as UNKNOWN; if the value is true and not a
  list, the call ends with the \<^verbatim>\<open>UnknownError\<close> of line 130. A value that is false
  (\<^verbatim>\<open>null\<close>, \<^verbatim>\<open>false\<close>, 0, an empty string or dict) is not covered: line 124 takes
  it first.
\<close>

theorem C3_malformed_shape:
  assumes "\<not> opt_truthy (policy_id self) \<or> list_policies self"
  shows "(\<forall>e. getitem json_data ''vXPolicies'' = Inl e \<longrightarrow>
            parse_json self json_data = Raised e \<and>
            (e = KeyError ''vXPolicies'' \<or> e = TypeError) \<and>
            final_status (parse_json self json_data) = UNKNOWN) \<and>
         (\<forall>v. getitem json_data ''vXPolicies'' = Inr v \<and> truthy v \<and> \<not> isList v \<longrightarrow>
            parse_json self json_data =
              Raised (UnknownError (''non-list returned for json_data[vXPolicies] by Ranger'' @
                                    host_info self)) \<and>
            final_status (parse_json self json_data) = UNKNOWN)"
proof (intro conjI allI impI)
  fix e
  assume g: "getitem json_data ''vXPolicies'' = Inl e"
  from parse_json_no_field [OF assms g]
  show p: "parse_json self json_data = Raised e" .
  from getitem_error [OF g]
  show e: "e = KeyError ''vXPolicies'' \<or> e = TypeError" .
  from e show "final_status (parse_json self json_data) = UNKNOWN"
    unfolding p by auto
next
  fix v
  assume "getitem json_data ''vXPolicies'' = Inr v \<and> truthy v \<and> \<not> isList v"
  then have g: "getitem json_data ''vXPolicies'' = Inr v" and t: "truthy v" and l: "\<not> isList v"
    by simp_all
  from parse_json_non_list [OF assms g t l]
  show p: "parse_json self json_data =
              Raised (UnknownError (''non-list returned for json_data[vXPolicies] by Ranger'' @
                                    host_info self))" .
  show "final_status (parse_json self json_data) = UNKNOWN"
    unfolding p by simp
qed

theorem C3_malformed_shape_witness:
  "parse_json (by_name ''p1'') (JObj [(''msgDesc'', JStr ''denied'')]) =
     Raised (KeyError ''vXPolicies'') \<and>
   final_status (parse_json (by_name ''p1'') (JObj [(''msgDesc'', JStr ''denied'')])) = UNKNOWN \<and>
   parse_json (by_name ''p1'') (payload (JStr ''none'')) =
     Raised (UnknownError ''non-list returned for json_data[vXPolicies] by Ranger'') \<and>
   final_status (parse_json (by_name ''p1'') (payload (JStr ''none''))) = UNKNOWN"
proof -
  have a: "\<not> opt_truthy (policy_id (by_name ''p1'')) \<or> list_policies (by_name ''p1'')"
    by (simp add: by_name_def init_def)
  have h: "host_info (by_name ''p1'') = []"
    by (simp add: host_info_def by_name_def init_def)
  have g1: "getitem (JObj [(''msgDesc'', JStr ''denied'')]) ''vXPolicies'' =
              Inl (KeyError ''vXPolicies'')"
    by simp
  have g2: "getitem (payload (JStr ''none'')) ''vXPolicies'' = Inr (JStr ''none'') \<and>
              truthy (JStr ''none'') \<and> \<not> isList (JStr ''none'')"
    by (simp add: payload_def)
  from C3_malformed_shape [OF a, of "JObj [(''msgDesc'', JStr ''denied'')]"] g1
  have 1: "parse_json (by_name ''p1'') (JObj [(''msgDesc'', JStr ''denied'')]) =
     Raised (KeyError ''vXPolicies'') \<and>
     final_status (parse_json (by_name ''p1'') (JObj [(''msgDesc'', JStr ''denied'')])) = UNKNOWN"
    by blast
  from C3_malformed_shape [OF a, of "payload (JStr ''none'')"] g2
  have "parse_json (by_name ''p1'') (payload (JStr ''none'')) =
     Raised (UnknownError (''non-list returned for json_data[vXPolicies] by Ranger'' @
                           host_info (by_name ''p1''))) \<and>
     final_status (parse_json (by_name ''p1'') (payload (JStr ''none''))) = UNKNOWN"
    by blast
  then have 2: "parse_json (by_name ''p1'') (payload (JStr ''none'')) =
     Raised (UnknownError ''non-list returned for json_data[vXPolicies] by Ranger'') \<and>
     final_status (parse_json (by_name ''p1'') (payload (JStr ''none''))) = UNKNOWN"
    unfolding h by simp
  from 1 2 show ?thesis by blast
qed

theorem C3_null_collection_counterexample:
  "getitem (payload JNull) ''vXPolicies'' = Inr JNull \<and> \<not> isList JNull \<and>
   parse_json (by_name ''p1'') (payload JNull) =
     Raised (CriticalError ''no Ranger policies found!'') \<and>
   final_status (parse_json (by_name ''p1'') (payload JNull)) = CRITICAL"
  by code_simp

text \<open>
  C4. When \<^verbatim>\<open>vXPolicies\<close> is read (no \<^verbatim>\<open>--id\<close>, or a listing) and it is the empty
  list, the call ends with the \<^verbatim>\<open>CriticalError\<close> of line 125, whatever the name
  asked for and whether or not the listing was asked for. In a lookup by id without
  listing the payload is the policy itself and the field is not read.
\<close>

theorem C4_empty_collection:
  assumes "\<not> opt_truthy (policy_id self) \<or> list_policies self"
    and "getitem json_data ''vXPolicies'' = Inr (JList [])"
  shows "parse_json self json_data = Raised (CriticalError ''no Ranger policies found!'') \<and>
         final_status (parse_json self json_data) = CRITICAL"
proof -
  have "\<not> truthy (JList [])" by simp
  from parse_json_falsy_list [OF assms this]
  show ?thesis by simp
qed

theorem C4_empty_collection_witness:
  "parse_json (by_name ''p1'') (payload (JList [])) =
     Raised (CriticalError ''no Ranger policies found!'') \<and>
   parse_json list_mode (payload (JList [])) =
     Raised (CriticalError ''no Ranger policies found!'') \<and>
   final_status (parse_json ((by_id ''1'' None)\<lparr>list_policies := True\<rparr>) (payload (JList []))) =
     CRITICAL"
proof -
  have a: "\<not> opt_truthy (policy_id (by_name ''p1'')) \<or> list_policies (by_name ''p1'')"
    "\<not> opt_truthy (policy_id list_mode) \<or> list_policies list_mode"
    "\<not> opt_truthy (policy_id ((by_id ''1'' None)\<lparr>list_policies := True\<rparr>)) \<or>
       list_policies ((by_id ''1'' None)\<lparr>list_policies := True\<rparr>)"
    by (simp_all add: by_name_def list_mode_def init_def)
  have g: "getitem (payload (JList [])) ''vXPolicies'' = Inr (JList [])"
    by (simp add: payload_def)
  from C4_empty_collection [OF a(1) g] C4_empty_collection [OF a(2) g]
    C4_empty_collection [OF a(3) g]
  show ?thesis by blast
qed

theorem C4_lookup_by_id_counterexample:
  "getitem (payload (JList [])) ''vXPolicies'' = Inr (JList []) \<and>
   parse_json (by_id ''1'' None) (payload (JList [])) = Raised (KeyError ''policyName'') \<and>
   final_status (parse_json (by_id ''1'' None) (payload (JList []))) = UNKNOWN"
  by code_simp

text \<open>
  C10. In a lookup by id (\<^verbatim>\<open>--id\<close> given, no listing) with a payload that is false
  and is not \<^verbatim>\<open>null\<close> (an empty dict or list, 0, an empty string, \<^verbatim>\<open>false\<close>), or that
  is \<^verbatim>\<open>null\<close> while no name was given: neither the error of line 125 nor an error
  about the id is raised; the call ends with the \<^verbatim>\<open>CriticalError\<close> of line 147, whose
  text quotes the name, and quotes \<^verbatim>\<open>None\<close> when \<^verbatim>\<open>--name\<close> was not given.
\<close>

theorem C10_falsy_payload_by_id:
  assumes "opt_truthy (policy_id self)" and "\<not> list_policies self"
    and "\<not> truthy json_data"
    and "json_data \<noteq> JNull \<or> \<not> opt_truthy (policy_name self)"
  shows "parse_json self json_data =
           Raised (CriticalError (''no matching policy found with name '' @
                     quoted (str_opt (policy_name self)) @
                     '' in policy list returned by Ranger'' @ host_info self)) \<and>
         final_status (parse_json self json_data) = CRITICAL \<and>
         (policy_name self = None \<longrightarrow>
            parse_json self json_data =
              Raised (CriticalError (''no matching policy found with name 'None' in policy list returned by Ranger'' @
                        host_info self)))"
proof -
  have p: "parse_json self json_data =
           Raised (CriticalError (''no matching policy found with name '' @
                     quoted (str_opt (policy_name self)) @
                     '' in policy list returned by Ranger'' @ host_info self))"
    using parse_json_direct_falsy [OF assms] by (simp only: not_found_text_def)
  have q: "''no matching policy found with name '' @ quoted (str_opt None) @
             '' in policy list returned by Ranger'' @ h =
           ''no matching policy found with name 'None' in policy list returned by Ranger'' @ h"
    for h by (simp add: quoted_def)
  have s: "final_status (parse_json self json_data) = CRITICAL"
    unfolding p by simp
  have n: "policy_name self = None \<longrightarrow>
            parse_json self json_data =
              Raised (CriticalError (''no matching policy found with name 'None' in policy list returned by Ranger'' @
                        host_info self))"
  proof
    assume "policy_name self = None"
    with p q [of "host_info self"] show "parse_json self json_data =
              Raised (CriticalError (''no matching policy found with name 'None' in policy list returned by Ranger'' @
                        host_info self))"
      by simp
  qed
  from p s n show ?thesis by blast
qed

theorem C10_falsy_payload_by_id_witness:
  "parse_json (by_id ''7'' None) (JObj []) =
     Raised (CriticalError ''no matching policy found with name 'None' in policy list returned by Ranger'') \<and>
   final_status (parse_json (by_id ''7'' (Some ''p1'')) (JObj [])) = CRITICAL"
proof -
  have a: "opt_truthy (policy_id (by_id ''7'' k))" "\<not> list_policies (by_id ''7'' k)"
    "policy_name (by_id ''7'' k) = k" "host_info (by_id ''7'' k) = []" for k
    by (simp_all add: by_id_def init_def host_info_def)
  have f: "\<not> truthy (JObj [])" by simp
  have n: "JObj [] \<noteq> JNull \<or> \<not> opt_truthy (policy_name (by_id ''7'' k))" for k by simp
  from C10_falsy_payload_by_id [OF a(1) a(2) f n, of None] a(3) [of None]
  have "parse_json (by_id ''7'' None) (JObj []) =
     Raised (CriticalError (''no matching policy found with name 'None' in policy list returned by Ranger'' @
               host_info (by_id ''7'' None)))"
    by blast
  then have 1: "parse_json (by_id ''7'' None) (JObj []) =
     Raised (CriticalError ''no matching policy found with name 'None' in policy list returned by Ranger'')"
    unfolding a(4) by simp
  from C10_falsy_payload_by_id [OF a(1) a(2) f n, of "Some ''p1''"]
  have 2: "final_status (parse_json (by_id ''7'' (Some ''p1'')) (JObj [])) = CRITICAL"
    by blast
  from 1 2 show ?thesis by blast
qed

theorem C10_null_payload_counterexample:
  "\<not> truthy JNull \<and>
   parse_json (by_id ''7'' (Some ''p1'')) JNull = Raised TypeError \<and>
   final_status (parse_json (by_id ''7'' (Some ''p1'')) JNull) = UNKNOWN"
  by code_simp

section \<open>Properties of the listing\<close>

lemma for_each_error:
  assumes "\<forall>x\<in>set xs. \<forall>s e. body x s = Inl e \<longrightarrow> P e"
    and "for_each body xs s = Inl e"
  shows "P e"
  using assms
proof (induction xs arbitrary: s)
  case Nil
  then show ?case by simp
next
  case (Cons x xs)
  show ?case
  proof (cases "body x s")
    case (Inl e')
    with Cons.prems(2) have "e' = e" by simp
    with Inl Cons.prems(1) show ?thesis by auto
  next
    case (Inr s')
    with Cons.prems(2) have "for_each body xs s' = Inl e" by simp
    moreover from Cons.prems(1) have "\<forall>x\<in>set xs. \<forall>s e. body x s = Inl e \<longrightarrow> P e" by simp
    ultimately show ?thesis by (rule Cons.IH [rotated])
  qed
qed

lemma collect_error:
  assumes "\<forall>x\<in>set xs. \<forall>e. f x = Inl e \<longrightarrow> P e"
    and "collect f xs = Inl e"
  shows "P e"
  using assms
proof (induction xs)
  case Nil
  then show ?case by simp
next
  case (Cons x xs)
  show ?case
  proof (cases "f x")
    case (Inl e')
    with Cons.prems(2) have "e' = e" by simp
    with Inl Cons.prems(1) show ?thesis by auto
  next
    case (Inr y)
    with Cons.prems(2) have "collect f xs = Inl e"
      by (cases "collect f xs") simp_all
    moreover from Cons.prems(1) have "\<forall>x\<in>set xs. \<forall>e. f x = Inl e \<longrightarrow> P e" by simp
    ultimately show ?thesis by (rule Cons.IH [rotated])
  qed
qed

lemma collect_length: "collect f xs = Inr ys \<Longrightarrow> length ys = length xs"
proof (induction xs arbitrary: ys)
  case Nil
  then show ?case by simp
next
  case (Cons x xs)
  then show ?case
    by (cases "f x"; cases "collect f xs") auto
qed

lemma for_each_returns:
  assumes "\<forall>x\<in>set xs. \<forall>s. I s \<longrightarrow> (\<exists>s'. body x s = Inr s' \<and> I s')"
    and "I s"
  shows "\<exists>s'. for_each body xs s = Inr s' \<and> I s'"
  using assms
proof (induction xs arbitrary: s)
  case Nil
  then show ?case by simp
next
  case (Cons x xs)
  from Cons.prems
  obtain s1 where b: "body x s = Inr s1" and i: "I s1" by auto
  from Cons.prems(1) have "\<forall>x\<in>set xs. \<forall>s. I s \<longrightarrow> (\<exists>s'. body x s = Inr s' \<and> I s')" by simp
  from Cons.IH [OF this i]
  obtain s2 where "for_each body xs s1 = Inr s2" and "I s2" by auto
  with b show ?case by simp
qed

lemma collect_returns:
  assumes "\<forall>x\<in>set xs. \<exists>y. f x = Inr y"
  shows "\<exists>ys. collect f xs = Inr ys"
  using assms
proof (induction xs)
  case Nil
  then show ?case by simp
next
  case (Cons x xs)
  from Cons.prems obtain y where "f x = Inr y" by auto
  moreover from Cons.IH Cons.prems obtain ys where "collect f xs = Inr ys" by auto
  ultimately show ?case by simp
qed

lemma getitem_failure: "getitem p k = Inl e \<Longrightarrow> lookup_failure e"
  by (auto dest: getitem_error)

lemma lookup_failure: "lookup d k = Inl e \<Longrightarrow> lookup_failure e"
  by (auto simp add: lookup_def split: option.splits)

lemma format_width_failure: "format_width v w = Inl e \<Longrightarrow> lookup_failure e"
  by (cases v) auto

lemma widen_failure: "widen p c widths = Inl e \<Longrightarrow> lookup_failure e"
  unfolding widen_def Let_def
  by (auto split: if_splits simp add: attempt_Inl_iff dest: getitem_failure lookup_failure)

lemma compute_widths_failure: "compute_widths ps = Inl e \<Longrightarrow> lookup_failure e"
  unfolding compute_widths_def
  by (erule for_each_error [rotated], intro ballI allI impI,
      erule for_each_error [rotated]) (auto dest: widen_failure)

lemma total_width_failure: "total_width widths = Inl e \<Longrightarrow> lookup_failure e"
  unfolding total_width_def
  by (erule for_each_error [rotated]) (auto simp add: attempt_Inl_iff dest: lookup_failure)

lemma heading_line_failure: "heading_line widths = Inl e \<Longrightarrow> lookup_failure e"
  unfolding heading_line_def attempt_Inl_iff
  by (auto elim!: collect_error [rotated] simp add: attempt_Inl_iff dest: lookup_failure)

lemma row_line_failure: "row_line widths p = Inl e \<Longrightarrow> lookup_failure e"
  unfolding row_line_def attempt_Inl_iff
  by (auto elim!: collect_error [rotated] simp add: attempt_Inl_iff
           dest: lookup_failure getitem_failure format_width_failure)

lemma print_policies_failure: "print_policies ps = Inl e \<Longrightarrow> lookup_failure e"
  unfolding print_policies_def attempt_Inl_iff
  by (auto elim!: collect_error [rotated]
           dest: compute_widths_failure total_width_failure heading_line_failure row_line_failure)

lemma print_policies_rows:
  "print_policies ps = Inr l \<Longrightarrow> length (rows l) = length ps \<and> dumps l = ps"
  unfolding print_policies_def attempt_Inr_iff
  by (auto dest: collect_length)

lemma listable_getitem:
  assumes "listable p" and "c \<in> set cols"
  shows "\<exists>v. getitem p (snd c) = Inr v \<and> printable v"
proof -
  from assms have "case getitem p (snd c) of Inl e \<Rightarrow> False | Inr v \<Rightarrow> printable v"
    unfolding listable_def list_all_iff by blast
  then show ?thesis by (cases "getitem p (snd c)") simp_all
qed

lemma printable_format: "printable v \<Longrightarrow> \<exists>cell. format_width v w = Inr cell"
  by (cases v) simp_all

lemma widen_returns:
  assumes "listable p" and "c \<in> set cols"
    and "\<forall>h\<in>set columns. \<exists>w. widths h = Some w"
  shows "\<exists>widths'. widen p c widths = Inr widths' \<and> (\<forall>h\<in>set columns. \<exists>w. widths' h = Some w)"
proof (cases "fst c = ''Description''")
  case True
  with assms(3) show ?thesis by (simp add: widen_def)
next
  case False
  from listable_getitem [OF assms(1,2)] obtain v where g: "getitem p (snd c) = Inr v"
    by blast
  define w2 where "w2 = (if widths (fst c) = None then widths(fst c \<mapsto> 0) else widths)"
  have "\<exists>old. w2 (fst c) = Some old" unfolding w2_def by auto
  then obtain old where o: "lookup w2 (fst c) = Inr old" by (auto simp add: lookup_def)
  from assms(3) have c2: "\<forall>h\<in>set columns. \<exists>w. w2 h = Some w"
    unfolding w2_def by auto
  from False g o have "widen p c widths =
      Inr (if length (str v) > old then w2(fst c \<mapsto> length (str v)) else w2)"
    by (simp add: widen_def w2_def)
  moreover from c2 have
    "\<forall>h\<in>set columns. \<exists>w. (if length (str v) > old then w2(fst c \<mapsto> length (str v)) else w2) h = Some w"
    by auto
  ultimately show ?thesis by blast
qed

lemma initial_widths:
  "\<forall>h\<in>set columns. \<exists>w. map_of (map (\<lambda>c. (fst c, length (fst c))) cols) h = Some w"
  by (simp add: cols_def columns_def)

lemma compute_widths_returns:
  assumes "\<forall>p\<in>set ps. listable p"
  shows "\<exists>widths. compute_widths ps = Inr widths \<and> (\<forall>h\<in>set columns. \<exists>w. widths h = Some w)"
proof -
  let ?I = "\<lambda>widths :: string \<rightharpoonup> nat. \<forall>h\<in>set columns. \<exists>w. widths h = Some w"
  have inner: "\<forall>p\<in>set ps. \<forall>s. ?I s \<longrightarrow> (\<exists>s'. for_each (widen p) cols s = Inr s' \<and> ?I s')"
  proof (intro ballI allI impI)
    fix p s
    assume p: "p \<in> set ps" and w: "?I s"
    from p assms have l: "listable p" by blast
    have "\<forall>c\<in>set cols. \<forall>s. ?I s \<longrightarrow> (\<exists>s'. widen p c s = Inr s' \<and> ?I s')"
    proof (intro ballI allI impI)
      fix c s
      assume "c \<in> set cols" and "?I s"
      with l show "\<exists>s'. widen p c s = Inr s' \<and> ?I s'" by (rule widen_returns)
    qed
    from for_each_returns [where I = ?I, OF this w]
    show "\<exists>s'. for_each (widen p) cols s = Inr s' \<and> ?I s'" .
  qed
  from for_each_returns [where I = ?I, OF inner initial_widths]
  show ?thesis unfolding compute_widths_def .
qed

lemma total_width_returns:
  assumes "\<forall>h\<in>set columns. \<exists>w. widths h = Some w"
  shows "\<exists>total. total_width widths = Inr total"
proof -
  have "\<exists>s'. for_each (\<lambda>h total. attempt (lookup widths h) (\<lambda>w. Inr (total + (w + 2))))
          columns 0 = Inr s' \<and> True"
  proof (rule for_each_returns [where I = "\<lambda>_. True"], intro ballI allI impI)
    fix h s
    assume "h \<in> set columns"
    with assms obtain w where "widths h = Some w" by blast
    then show "\<exists>s'. attempt (lookup widths h) (\<lambda>w. Inr (s + (w + 2))) = Inr s' \<and> True"
      by (simp add: lookup_def)
  qed simp
  then show ?thesis by (simp add: total_width_def)
qed

lemma heading_line_returns:
  assumes "\<forall>h\<in>set columns. \<exists>w. widths h = Some w"
  shows "\<exists>line. heading_line widths = Inr line"
proof -
  have "\<exists>cells. collect (\<lambda>h. attempt (lookup widths h) (\<lambda>w. Inr (ljust h w @ ''  ''))) columns
          = Inr cells"
  proof (rule collect_returns, rule ballI)
    fix h
    assume "h \<in> set columns"
    with assms obtain w where "widths h = Some w" by blast
    then show "\<exists>y. attempt (lookup widths h) (\<lambda>w. Inr (ljust h w @ ''  '')) = Inr y"
      by (simp add: lookup_def)
  qed
  then show ?thesis by (auto simp add: heading_line_def)
qed

lemma columns_in_cols: "\<forall>col\<in>set columns. \<exists>key. map_of cols col = Some key \<and> (col, key) \<in> set cols"
  by (simp add: cols_def columns_def)

lemma row_line_returns:
  assumes "\<forall>h\<in>set columns. \<exists>w. widths h = Some w" and "listable p"
  shows "\<exists>line. row_line widths p = Inr line"
proof -
  have "\<exists>cells. collect (\<lambda>col.
                attempt (lookup (map_of cols) col) (\<lambda>key.
                attempt (getitem p key) (\<lambda>v.
                attempt (lookup widths col) (\<lambda>w.
                attempt (format_width v w) (\<lambda>cell. Inr (cell @ ''  '')))))) columns = Inr cells"
  proof (rule collect_returns, rule ballI)
    fix col
    assume c: "col \<in> set columns"
    with columns_in_cols obtain key where k: "map_of cols col = Some key"
      and m: "(col, key) \<in> set cols" by blast
    from listable_getitem [OF assms(2) m] obtain v where g: "getitem p key = Inr v"
      and pr: "printable v" by auto
    from assms(1) c obtain w where w: "widths col = Some w" by blast
    from printable_format [OF pr, of w] obtain cell where f: "format_width v w = Inr cell"
      by blast
    from k g w f show "\<exists>y. attempt (lookup (map_of cols) col) (\<lambda>key.
                attempt (getitem p key) (\<lambda>v.
                attempt (lookup widths col) (\<lambda>w.
                attempt (format_width v w) (\<lambda>cell. Inr (cell @ ''  ''))))) = Inr y"
      by (simp add: lookup_def)
  qed
  then show ?thesis by (auto simp add: row_line_def)
qed

lemma print_policies_returns:
  assumes "\<forall>p\<in>set ps. listable p"
  shows "\<exists>l. print_policies ps = Inr l"
proof -
  from compute_widths_returns [OF assms] obtain widths
    where 1: "compute_widths ps = Inr widths" and c: "\<forall>h\<in>set columns. \<exists>w. widths h = Some w"
    by blast
  from total_width_returns [OF c] obtain total where 2: "total_width widths = Inr total"
    by blast
  from heading_line_returns [OF c] obtain h where 3: "heading_line widths = Inr h"
    by blast
  have "\<exists>rs. collect (row_line widths) ps = Inr rs"
    using assms by (intro collect_returns ballI row_line_returns [OF c]) blast
  then obtain rs where 4: "collect (row_line widths) ps = Inr rs" by blast
  from 1 2 3 4 show ?thesis by (simp add: print_policies_def)
qed

lemma listing_example:
  "parse_json list_mode (payload (JList [sample_row 1 ''p1'', sample_row 12 ''p2''])) =
    Exited UNKNOWN
      \<lparr> dumps = [sample_row 1 ''p1'', sample_row 12 ''p2''],
        border = replicate 71 CHR ''='',
        heading = ''Id  Name  RepoName   RepoType  Enabled  Audit  Recursive  Description  '',
        rows = ['' 1  p1    hdfs_repo  hdfs            1      1          0  home directories  '',
                ''12  p2    hdfs_repo  hdfs            1      1          0  home directories  ''] \<rparr>"
  by code_simp

text \<open>
  C2. In listing mode over a list of policies that is not empty, the call returns no
  verdict and raises no \<^verbatim>\<open>CriticalError\<close>: it ends with status UNKNOWN, either by
  \<^verbatim>\<open>sys.exit\<close> after the table or by the exception of a failed subscript or format.
  Whenever the table is printed it has one row per policy, and it is printed whenever
  every policy is a dict with the eight fields of the table, each a string, an int or
  a bool. An empty list is not covered: line 124 takes it first.
\<close>

theorem C2_listing_is_informational:
  assumes "list_policies self"
    and "getitem json_data ''vXPolicies'' = Inr (JList ps)" and "ps \<noteq> []"
  shows "verdict (parse_json self json_data) = None \<and>
         (\<forall>m. parse_json self json_data \<noteq> Raised (CriticalError m)) \<and>
         final_status (parse_json self json_data) = UNKNOWN \<and>
         (\<forall>s l. parse_json self json_data = Exited s l \<longrightarrow>
            s = UNKNOWN \<and> length (rows l) = length ps \<and> dumps l = ps) \<and>
         ((\<forall>p\<in>set ps. listable p) \<longrightarrow>
            (\<exists>l. parse_json self json_data = Exited UNKNOWN l \<and> length (rows l) = length ps))"
proof -
  note pj = parse_json_listing [OF assms]
  show ?thesis
  proof (cases "print_policies ps")
    case (Inl e)
    then have p: "parse_json self json_data = Raised e" unfolding pj by simp
    from print_policies_failure [OF Inl] have f: "lookup_failure e" .
    then have "surfaced e = UNKNOWN" and "\<forall>m. e \<noteq> CriticalError m"
      by (cases e; simp)+
    moreover from Inl print_policies_returns [of ps] have "\<not> (\<forall>p\<in>set ps. listable p)"
      by auto
    ultimately show ?thesis unfolding p by simp
  next
    case (Inr l)
    then have p: "parse_json self json_data = Exited UNKNOWN l" unfolding pj by simp
    from print_policies_rows [OF Inr] show ?thesis unfolding p by simp
  qed
qed

theorem C2_listing_is_informational_witness:
  "final_status (parse_json list_mode
     (payload (JList [sample_row 1 ''p1'', sample_row 12 ''p2'']))) = UNKNOWN \<and>
   (\<exists>l. parse_json list_mode (payload (JList [sample_row 1 ''p1'', sample_row 12 ''p2''])) =
          Exited UNKNOWN l \<and> length (rows l) = 2)"
proof -
  have a: "list_policies list_mode" by (simp add: list_mode_def init_def)
  have g: "getitem (payload (JList [sample_row 1 ''p1'', sample_row 12 ''p2''])) ''vXPolicies'' =
             Inr (JList [sample_row 1 ''p1'', sample_row 12 ''p2''])"
    by (simp add: payload_def)
  have ne: "[sample_row 1 ''p1'', sample_row 12 ''p2''] \<noteq> []" by simp
  have l: "\<forall>p\<in>set [sample_row 1 ''p1'', sample_row 12 ''p2'']. listable p"
    by (simp add: listable_def cols_def sample_row_def)
  from C2_listing_is_informational [OF a g ne] l show ?thesis by auto
qed

theorem C2_empty_listing_counterexample:
  "getitem (payload (JList [])) ''vXPolicies'' = Inr (JList []) \<and>
   parse_json list_mode (payload (JList [])) =
     Raised (CriticalError ''no Ranger policies found!'') \<and>
   final_status (parse_json list_mode (payload (JList []))) = CRITICAL"
  by code_simp

end
